theory Spec2Isabelle
  imports Main "HOL-Library.AList"
begin

section \<open>Data model of src/main/window/WindowManager.ts\<close>

text \<open>
  The module keeps three module-level variables (\<open>currentUIStyle\<close>,
  \<open>closeToTrayEnabled\<close>, \<open>onTrayVisibilityUpdate\<close>) and one class,
  \<open>WindowManager\<close>, whose only own state is the registry
  \<open>windows : Map<string, BrowserWindow>\<close>. Everything else is reached through
  Electron objects. The model is a state record that is passed through every
  handler and returned updated; each function below is one handler or one
  listener of the source, named after it.
\<close>

datatype ui_style = Classic | Glass

record TabData =
  tabId :: string
  path :: string
  title :: string
  history :: "string list"
  historyIndex :: int

text \<open>A backend event is an opaque payload; only its identity matters here.\<close>

type_synonym backend_event = string

text \<open>What \<open>webContents.send(channel, payload)\<close> delivers, one constructor per channel used.\<close>

datatype message =
    TabReceive TabData
  | TabDropIndicator bool
  | TabInitWithData TabData
  | XpEvent backend_event

record rect =
  rectX :: int
  rectY :: int
  rectWidth :: int
  rectHeight :: int

text \<open>
  One \<open>BrowserWindow\<close> object together with what its listeners close over.
  \<open>windowId\<close> and \<open>seedTab\<close> are the \<open>windowId\<close> constant and
  \<open>options.tabData\<close> captured by the closures of \<open>createWindow\<close>;
  \<open>readyToShowPending\<close> says that the \<open>once('ready-to-show')\<close> listener is
  still registered; \<open>initTimerPending\<close> that the 100 ms timer set by that listener
  has not fired yet; \<open>closeListeners\<close> that the \<open>close\<close>, \<open>closed\<close> and
  \<open>show\<close> listeners are installed, which happens only after the awaited load.
  \<open>sent\<close> lists the messages passed to this window's \<open>webContents.send\<close>, oldest first.
\<close>

record window =
  windowId :: string
  seedTab :: "TabData option"
  bounds :: rect
  transparent :: bool
  backgroundColor :: string
  backgroundMaterial :: "string option"
  visible :: bool
  destroyed :: bool
  readyToShowPending :: bool
  initTimerPending :: bool
  closeListeners :: bool
  sent :: "message list"

text \<open>Calls that leave the module, in the order they are made.\<close>

datatype effect =
    LoadURL string string
  | LoadFile string string
  | OpenDevTools string
  | Show string
  | Hide string
  | PreventDefault string
  | Destroy string
  | TrayVisibilityUpdate "string list"
  | ConsoleLog string
  | ConsoleError string

text \<open>
  \<open>windows\<close> is the JavaScript \<open>Map\<close>: an association list in insertion order
  (\<open>Map.set\<close> on a present key keeps its position, on a new key appends;
  \<open>Map.delete\<close> removes the entry). \<open>onTrayVisibilityUpdate\<close> is \<open>True\<close> when a
  callback has been stored (the source holds the function or \<open>null\<close>); a call of
  it is recorded as \<open>TrayVisibilityUpdate\<close> with the registry keys it can observe
  at that moment. \<open>eventSubscriptions\<close> belongs to the backend bridge, see below.
\<close>

record wm_state =
  windows :: "(string \<times> window) list"
  currentUIStyle :: ui_style
  closeToTrayEnabled :: bool
  onTrayVisibilityUpdate :: bool
  eventSubscriptions :: nat
  trace :: "effect list"

text \<open>
  What the handlers read from the process and from Electron. The two
  \<open>Throws\<close> predicates say for which windows the native setters raise;
  \<open>initialBounds\<close> is the rectangle Electron reports for a window constructed
  with the given \<open>x\<close> and \<open>y\<close> options (its size options are computed from the
  primary display's work area in floating point).
\<close>

record env =
  platform :: string
  nodeEnv :: "string option"
  shouldUseDarkColors :: bool
  hasSetBackgroundMaterial :: bool
  setBackgroundColorThrows :: "window \<Rightarrow> bool"
  setBackgroundMaterialThrows :: "window \<Rightarrow> bool"
  initialBounds :: "int option \<Rightarrow> int option \<Rightarrow> rect"

record create_options =
  optX :: "int option"
  optY :: "int option"
  optTabData :: "TabData option"

definition initial_state :: wm_state where
  "initial_state =
     \<lparr>windows = [], currentUIStyle = Classic, closeToTrayEnabled = False,
      onTrayVisibilityUpdate = False, eventSubscriptions = 0, trace = []\<rparr>"

section \<open>Module-level setters and small helpers\<close>

definition setCloseToTrayEnabled :: "bool \<Rightarrow> wm_state \<Rightarrow> wm_state" where
  "setCloseToTrayEnabled enabled s = s\<lparr>closeToTrayEnabled := enabled\<rparr>"

definition setTrayVisibilityCallback :: "wm_state \<Rightarrow> wm_state" where
  "setTrayVisibilityCallback s = s\<lparr>onTrayVisibilityUpdate := True\<rparr>"

definition emit :: "effect list \<Rightarrow> wm_state \<Rightarrow> wm_state" where
  "emit es s = s\<lparr>trace := trace s @ es\<rparr>"

text \<open>\<open>if (onTrayVisibilityUpdate) { onTrayVisibilityUpdate(); }\<close>\<close>

definition trayVisibilityUpdate :: "wm_state \<Rightarrow> wm_state" where
  "trayVisibilityUpdate s =
     (if onTrayVisibilityUpdate s
      then emit [TrayVisibilityUpdate (map fst (windows s))] s
      else s)"

definition webContents_send :: "message \<Rightarrow> window \<Rightarrow> window" where
  "webContents_send m w = w\<lparr>sent := sent w @ [m]\<rparr>"

text \<open>\<open>this.windows.forEach((win) => f(win))\<close> for an \<open>f\<close> that only touches \<open>win\<close>.\<close>

definition forEach_window :: "(window \<Rightarrow> window) \<Rightarrow> wm_state \<Rightarrow> wm_state" where
  "forEach_window f s = s\<lparr>windows := map (\<lambda>(k, w). (k, f w)) (windows s)\<rparr>"

text \<open>The effects a run added to the trace of the state it started from.\<close>

definition emitted :: "wm_state \<Rightarrow> wm_state \<Rightarrow> effect list" where
  "emitted s s' = drop (length (trace s)) (trace s')"

section \<open>Registry queries\<close>

text \<open>\<open>window:getAllIds\<close>: \<open>Array.from(this.windows.keys())\<close>.\<close>

definition getAllIds :: "wm_state \<Rightarrow> string list" where
  "getAllIds s = map fst (windows s)"

text \<open>\<open>window:getBounds\<close>: the window's bounds, or \<open>null\<close> when the id is not a key.\<close>

definition getBounds :: "string \<Rightarrow> wm_state \<Rightarrow> rect option" where
  "getBounds wid s =
     (case map_of (windows s) wid of
        Some w \<Rightarrow> Some (bounds w)
      | None \<Rightarrow> None)"

text \<open>\<open>getWindow\<close>: \<open>this.windows.get(id) || null\<close>.\<close>

definition getWindow :: "string \<Rightarrow> wm_state \<Rightarrow> window option" where
  "getWindow wid s = map_of (windows s) wid"

text \<open>\<open>getMainWindow\<close>: the first of \<open>Array.from(this.windows.values())\<close>, or \<open>null\<close>.\<close>

definition getMainWindow :: "wm_state \<Rightarrow> window option" where
  "getMainWindow s =
     (case map snd (windows s) of
        [] \<Rightarrow> None
      | w # _ \<Rightarrow> Some w)"

section \<open>Tab transfer and drop indicator\<close>

text \<open>\<open>window:transferTab\<close>: deliver to the target when it is registered; no other branch.\<close>

definition transferTab :: "string \<Rightarrow> TabData \<Rightarrow> wm_state \<Rightarrow> wm_state" where
  "transferTab targetWindowId tabData s =
     (case map_of (windows s) targetWindowId of
        Some targetWindow \<Rightarrow>
          s\<lparr>windows := AList.update targetWindowId
                          (webContents_send (TabReceive tabData) targetWindow) (windows s)\<rparr>
      | None \<Rightarrow> s)"

definition showDropIndicator :: "string \<Rightarrow> bool \<Rightarrow> wm_state \<Rightarrow> wm_state" where
  "showDropIndicator targetWindowId show_it s =
     (case map_of (windows s) targetWindowId of
        Some targetWindow \<Rightarrow>
          s\<lparr>windows := AList.update targetWindowId
                          (webContents_send (TabDropIndicator show_it) targetWindow) (windows s)\<rparr>
      | None \<Rightarrow> s)"

section \<open>Backend events\<close>

text \<open>
  The listener that \<open>createWindow\<close> hands to the bridge:
  \<open>(event) => this.windows.forEach((win) => win.webContents.send('xp:event', event))\<close>.
  It reads the registry when it runs, so every registered copy of it does the same.
\<close>

definition forwardEvent :: "backend_event \<Rightarrow> wm_state \<Rightarrow> wm_state" where
  "forwardEvent e s = forEach_window (webContents_send (XpEvent e)) s"

text \<open>
  Modelled from the spec: \<open>ZmqBridge\<close> (\<open>../ipc/ZmqBridge\<close>) is imported by the
  source file but is not among the sources. The spec describes the fan-out as
  callback registration on a push stream of events: \<open>onEvent\<close> registers one more
  callback, and every event of the backend is pushed once to each registered
  callback. All callbacks this module registers are copies of \<open>forwardEvent\<close>, so
  the bridge is represented by their number.
\<close>

definition onEvent :: "wm_state \<Rightarrow> wm_state" where
  "onEvent s = s\<lparr>eventSubscriptions := Suc (eventSubscriptions s)\<rparr>"

text \<open>
  Modelled from the spec: the bridge's side of one backend event, which is not
  among the sources either: the event is handed to each registered callback in turn.
\<close>

definition backendEvent :: "backend_event \<Rightarrow> wm_state \<Rightarrow> wm_state" where
  "backendEvent e s = (forwardEvent e ^^ eventSubscriptions s) s"

section \<open>Style\<close>

definition styleName :: "ui_style \<Rightarrow> string" where
  "styleName st = (case st of Classic \<Rightarrow> ''classic'' | Glass \<Rightarrow> ''glass'')"

text \<open>
  The native setters of a \<open>BrowserWindow\<close>. Either one may raise (on a
  destroyed window, for instance); a call that raises changes nothing.
\<close>

datatype error = NativeCallFailed string

definition setBackgroundColor :: "env \<Rightarrow> string \<Rightarrow> window \<Rightarrow> error + window" where
  "setBackgroundColor ev color w =
     (if setBackgroundColorThrows ev w then Inl (NativeCallFailed ''setBackgroundColor'')
      else Inr (w\<lparr>backgroundColor := color\<rparr>))"

definition setBackgroundMaterial :: "env \<Rightarrow> string \<Rightarrow> window \<Rightarrow> error + window" where
  "setBackgroundMaterial ev material w =
     (if setBackgroundMaterialThrows ev w then Inl (NativeCallFailed ''setBackgroundMaterial'')
      else Inr (w\<lparr>backgroundMaterial := Some material\<rparr>))"

text \<open>
  The \<open>try\<close> block of \<open>applyWindowStyle\<close>. \<open>Inl\<close> is an exception leaving the
  block, with the window as the calls before it left it; \<open>Inr\<close> is normal
  completion, with the window and the console output.
\<close>

definition applyWindowStyle_try ::
  "env \<Rightarrow> window \<Rightarrow> ui_style \<Rightarrow> (error \<times> window) + (window \<times> effect list)" where
  "applyWindowStyle_try ev w st =
     (if st = Glass then
        (case setBackgroundColor ev ''#00000000'' w of
           Inl err \<Rightarrow> Inl (err, w)
         | Inr w1 \<Rightarrow>
             if hasSetBackgroundMaterial ev then
               (case setBackgroundMaterial ev ''acrylic'' w1 of
                  Inl err \<Rightarrow> Inl (err, w1)
                | Inr w2 \<Rightarrow>
                    Inr (w2, [ConsoleLog ''Applied acrylic background material for glass effect'']))
             else
               Inr (w1, [ConsoleLog
                 ''setBackgroundMaterial not available - using CSS-only glass effect'']))
      else
        (case setBackgroundColor ev ''#00000001'' w of
           Inl err \<Rightarrow> Inl (err, w)
         | Inr w1 \<Rightarrow>
             if hasSetBackgroundMaterial ev then
               (case setBackgroundMaterial ev ''none'' w1 of
                  Inl err \<Rightarrow> Inl (err, w1)
                | Inr w2 \<Rightarrow> Inr (w2, []))
             else Inr (w1, [])))"

text \<open>
  \<open>applyWindowStyle(window, style)\<close>: outside Windows it returns at once;
  on Windows it runs the \<open>try\<close> block and the \<open>catch\<close> logs what was raised.
  The result is the window and the console output.
\<close>

definition applyWindowStyle :: "env \<Rightarrow> window \<Rightarrow> ui_style \<Rightarrow> window \<times> effect list" where
  "applyWindowStyle ev w st =
     (if platform ev \<noteq> ''win32'' then (w, [])
      else
        (case applyWindowStyle_try ev w st of
           Inl (err, w') \<Rightarrow> (w', [ConsoleError ''Failed to apply window style:''])
         | Inr completed \<Rightarrow> completed))"

text \<open>
  \<open>this.windows.forEach((window) => this.applyWindowStyle(window, style))\<close>:
  every entry in turn, in registry order; the console output is collected in order.
\<close>

fun forEach_applyWindowStyle ::
  "env \<Rightarrow> ui_style \<Rightarrow> (string \<times> window) list \<Rightarrow> (string \<times> window) list \<times> effect list" where
  "forEach_applyWindowStyle ev st [] = ([], [])"
| "forEach_applyWindowStyle ev st ((k, w) # rest) =
     (case applyWindowStyle ev w st of
        (w', out) \<Rightarrow>
          (case forEach_applyWindowStyle ev st rest of
             (rest', out') \<Rightarrow> ((k, w') # rest', out @ out')))"

text \<open>\<open>window:setUIStyle\<close>.\<close>

definition setUIStyle :: "env \<Rightarrow> ui_style \<Rightarrow> wm_state \<Rightarrow> wm_state" where
  "setUIStyle ev st s =
     (let previousStyle = currentUIStyle s;
          s1 = s\<lparr>currentUIStyle := st\<rparr>;
          styled = forEach_applyWindowStyle ev st (windows s1);
          s2 = emit (snd styled) (s1\<lparr>windows := fst styled\<rparr>)
      in if previousStyle \<noteq> st
         then emit [ConsoleLog (''UI style changed from '' @ styleName previousStyle
                                @ '' to '' @ styleName st)] s2
         else s2)"

section \<open>Window creation\<close>

text \<open>
  \<open>createWindow(options)\<close> up to its \<open>await\<close>: construct the window hidden,
  register it under the fresh \<open>windowId\<close> (the value \<open>uuidv4()\<close> returned),
  install the one-shot \<open>ready-to-show\<close> listener, register the event listener
  with the bridge, start the load.
\<close>

definition newBrowserWindow :: "env \<Rightarrow> create_options \<Rightarrow> string \<Rightarrow> window" where
  "newBrowserWindow ev options wid =
     (let isWindows = (platform ev = ''win32'') in
      \<lparr>windowId = wid,
       seedTab = optTabData options,
       bounds = initialBounds ev (optX options) (optY options),
       transparent = isWindows,
       backgroundColor =
         (if isWindows then ''#00000000''
          else if shouldUseDarkColors ev then ''#1e1e1e'' else ''#ffffff''),
       backgroundMaterial = None,
       visible = False,
       destroyed = False,
       readyToShowPending = True,
       initTimerPending = False,
       closeListeners = False,
       sent = []\<rparr>)"

definition createWindow :: "env \<Rightarrow> create_options \<Rightarrow> string \<Rightarrow> wm_state \<Rightarrow> wm_state" where
  "createWindow ev options wid s =
     (let window = newBrowserWindow ev options wid;
          s1 = s\<lparr>windows := AList.update wid window (windows s)\<rparr>;
          s2 = onEvent s1
      in if nodeEnv ev = Some ''development''
         then emit [LoadURL wid ''http://localhost:5173''] s2
         else emit [LoadFile wid ''../renderer/index.html''] s2)"

text \<open>\<open>createMainWindow\<close>: \<open>this.createWindow({})\<close>.\<close>

definition createMainWindow :: "env \<Rightarrow> string \<Rightarrow> wm_state \<Rightarrow> wm_state" where
  "createMainWindow ev wid s =
     createWindow ev \<lparr>optX = None, optY = None, optTabData = None\<rparr> wid s"

text \<open>
  \<open>window:createWithTab\<close>: a new window near the drop point, seeded with the
  tab. The screen coordinates are taken as integers, which is what the source's
  numbers are for whole pixel positions below \<open>2^53\<close>; the number the handler
  returns to the renderer (Electron's \<open>window.id\<close>, not the registry id) is not
  part of the state and is left out.
\<close>

definition createWithTab ::
  "env \<Rightarrow> TabData \<Rightarrow> int \<Rightarrow> int \<Rightarrow> string \<Rightarrow> wm_state \<Rightarrow> wm_state" where
  "createWithTab ev tabData screenX screenY wid s =
     createWindow ev
       \<lparr>optX = Some (screenX - 100), optY = Some (screenY - 20), optTabData = Some tabData\<rparr>
       wid s"

text \<open>
  The rest of \<open>createWindow\<close>, run when the awaited load of window \<open>wid\<close> resolves:
  open the developer tools in development, then install the \<open>close\<close>, \<open>closed\<close>
  and \<open>show\<close> listeners. A destroyed window does not finish loading.
\<close>

definition createWindow_loaded :: "env \<Rightarrow> string \<Rightarrow> wm_state \<Rightarrow> wm_state" where
  "createWindow_loaded ev wid s =
     (case map_of (windows s) wid of
        None \<Rightarrow> s
      | Some w \<Rightarrow>
          if destroyed w \<or> closeListeners w then s
          else
            (let s1 = (if nodeEnv ev = Some ''development'' then emit [OpenDevTools wid] s else s)
             in s1\<lparr>windows := AList.update wid (w\<lparr>closeListeners := True\<rparr>) (windows s1)\<rparr>))"

section \<open>Listeners of one window\<close>

text \<open>
  Electron emits \<open>ready-to-show\<close> on a live window; the \<open>once\<close> listener runs at
  most once. It shows the window (the \<open>show\<close> listener, when installed, calls the
  tray callback) and, when the window was seeded with a tab, sets the timer.
\<close>

definition readyToShow :: "string \<Rightarrow> wm_state \<Rightarrow> wm_state" where
  "readyToShow wid s =
     (case map_of (windows s) wid of
        None \<Rightarrow> s
      | Some w \<Rightarrow>
          if destroyed w \<or> \<not> readyToShowPending w then s
          else
            (let w1 = w\<lparr>readyToShowPending := False, visible := True\<rparr>;
                 s1 = emit [Show wid] (s\<lparr>windows := AList.update wid w1 (windows s)\<rparr>);
                 s2 = (if closeListeners w then trayVisibilityUpdate s1 else s1);
                 w2 = (if seedTab w \<noteq> None then w1\<lparr>initTimerPending := True\<rparr> else w1)
             in s2\<lparr>windows := AList.update wid w2 (windows s2)\<rparr>))"

text \<open>The timer callback: \<open>window.webContents.send('tab:initWithData', options.tabData)\<close>.\<close>

definition initTimerFired :: "string \<Rightarrow> wm_state \<Rightarrow> wm_state" where
  "initTimerFired wid s =
     (case map_of (windows s) wid of
        None \<Rightarrow> s
      | Some w \<Rightarrow>
          (case seedTab w of
             None \<Rightarrow> s
           | Some tabData \<Rightarrow>
               if initTimerPending w
               then s\<lparr>windows := AList.update wid
                       (webContents_send (TabInitWithData tabData) (w\<lparr>initTimerPending := False\<rparr>))
                       (windows s)\<rparr>
               else s))"

text \<open>\<open>window.hide()\<close> on the window registered as \<open>wid\<close>.\<close>

definition hideWindow :: "string \<Rightarrow> wm_state \<Rightarrow> wm_state" where
  "hideWindow wid s =
     (case map_of (windows s) wid of
        None \<Rightarrow> s
      | Some w \<Rightarrow>
          emit [Hide wid] (s\<lparr>windows := AList.update wid (w\<lparr>visible := False\<rparr>) (windows s)\<rparr>))"

text \<open>
  The \<open>close\<close> listener of window \<open>wid\<close>. It returns whether it called
  \<open>event.preventDefault()\<close>.
\<close>

definition onClose :: "string \<Rightarrow> wm_state \<Rightarrow> bool \<times> wm_state" where
  "onClose wid s =
     (if closeToTrayEnabled s \<and> length (windows s) = 1
      then (True, trayVisibilityUpdate (hideWindow wid (emit [PreventDefault wid] s)))
      else (False, s))"

text \<open>The \<open>closed\<close> listener: \<open>this.windows.delete(windowId)\<close>, then the tray callback.\<close>

definition onClosed :: "string \<Rightarrow> wm_state \<Rightarrow> wm_state" where
  "onClosed wid s = trayVisibilityUpdate (s\<lparr>windows := AList.delete wid (windows s)\<rparr>)"

text \<open>
  A close request on window \<open>wid\<close> (the user, or \<open>window.close()\<close> from
  \<open>window:close\<close> and \<open>closeAllWindows\<close>). Electron emits \<open>close\<close>; unless a
  listener prevented it, the window is destroyed and \<open>closed\<close> is emitted. A window
  whose load has not resolved has neither listener yet: it is destroyed and
  nothing in this module runs.
\<close>

definition closeRequest :: "string \<Rightarrow> wm_state \<Rightarrow> wm_state" where
  "closeRequest wid s =
     (case map_of (windows s) wid of
        None \<Rightarrow> s
      | Some w \<Rightarrow>
          if destroyed w then s
          else if closeListeners w then
            (case onClose wid s of
               (True, s1) \<Rightarrow> s1
             | (False, s1) \<Rightarrow> onClosed wid (emit [Destroy wid] s1))
          else
            emit [Destroy wid]
              (s\<lparr>windows := AList.update wid (w\<lparr>destroyed := True, visible := False\<rparr>)
                              (windows s)\<rparr>))"

section \<open>The event loop\<close>

text \<open>
  Everything that can happen to the module, one constructor per kind of
  callback; \<open>run\<close> executes a sequence of them in order, as the single-threaded
  event loop does. \<open>window:close\<close> and \<open>closeAllWindows\<close> call
  \<open>window.close()\<close> and are \<open>CloseRequest\<close>s; \<open>window:getId\<close>,
  \<open>window:focus\<close>, \<open>window:minimize\<close> and \<open>window:maximize\<close> change
  nothing that is modelled. Events are addressed to a window by its registry id;
  a window that has left the registry is not followed any further.
\<close>

datatype event =
    CreateWindow create_options string
  | CreateWithTab TabData int int string
  | LoadFinished string
  | ReadyToShow string
  | InitTimerFired string
  | CloseRequest string
  | BackendEvent backend_event
  | SetUIStyle ui_style
  | TransferTab string TabData
  | ShowDropIndicator string bool
  | SetCloseToTrayEnabled bool
  | SetTrayVisibilityCallback

fun step :: "env \<Rightarrow> wm_state \<Rightarrow> event \<Rightarrow> wm_state" where
  "step ev s (CreateWindow options wid) = createWindow ev options wid s"
| "step ev s (CreateWithTab tabData sx sy wid) = createWithTab ev tabData sx sy wid s"
| "step ev s (LoadFinished wid) = createWindow_loaded ev wid s"
| "step ev s (ReadyToShow wid) = readyToShow wid s"
| "step ev s (InitTimerFired wid) = initTimerFired wid s"
| "step ev s (CloseRequest wid) = closeRequest wid s"
| "step ev s (BackendEvent e) = backendEvent e s"
| "step ev s (SetUIStyle st) = setUIStyle ev st s"
| "step ev s (TransferTab wid tabData) = transferTab wid tabData s"
| "step ev s (ShowDropIndicator wid b) = showDropIndicator wid b s"
| "step ev s (SetCloseToTrayEnabled b) = setCloseToTrayEnabled b s"
| "step ev s SetTrayVisibilityCallback = setTrayVisibilityCallback s"

definition run :: "env \<Rightarrow> event list \<Rightarrow> wm_state \<Rightarrow> wm_state" where
  "run ev evs s = foldl (step ev) s evs"

section \<open>Create and remove as operations on the registry\<close>

text \<open>
  The registry changes its keys in two places only: \<open>createWindow\<close> sets the
  entry of the id that \<open>uuidv4()\<close> returned, and the \<open>closed\<close> listener of a
  window deletes the entry of its id.
\<close>

datatype registry_op = Create create_options string | Remove string

fun registry_step :: "env \<Rightarrow> wm_state \<Rightarrow> registry_op \<Rightarrow> wm_state" where
  "registry_step ev s (Create options wid) = createWindow ev options wid s"
| "registry_step ev s (Remove wid) = onClosed wid s"

definition run_registry :: "env \<Rightarrow> registry_op list \<Rightarrow> wm_state \<Rightarrow> wm_state" where
  "run_registry ev ops s = foldl (registry_step ev) s ops"

text \<open>The ids \<open>uuidv4()\<close> returned, in the order of the calls.\<close>

fun issued :: "registry_op list \<Rightarrow> string list" where
  "issued [] = []"
| "issued (Create options wid # ops) = wid # issued ops"
| "issued (Remove wid # ops) = issued ops"


fun spec_live_order :: "string list \<Rightarrow> registry_op list \<Rightarrow> string list" where
  "spec_live_order live [] = live"
| "spec_live_order live (Create options wid # ops) = spec_live_order (live @ [wid]) ops"
| "spec_live_order live (Remove wid # ops) = spec_live_order (removeAll wid live) ops"

section \<open>Sample inputs\<close>

definition sample_bounds :: "int option \<Rightarrow> int option \<Rightarrow> rect" where
  "sample_bounds x y =
     \<lparr>rectX = (case x of None \<Rightarrow> 260 | Some v \<Rightarrow> v),
      rectY = (case y of None \<Rightarrow> 90 | Some v \<Rightarrow> v),
      rectWidth = 1400, rectHeight = 864\<rparr>"

text \<open>Windows 11 with a recent Electron, production build, every native call succeeds.\<close>

definition windows_env :: env where
  "windows_env =
     \<lparr>platform = ''win32'', nodeEnv = None, shouldUseDarkColors = False,
      hasSetBackgroundMaterial = True,
      setBackgroundColorThrows = (\<lambda>w. False),
      setBackgroundMaterialThrows = (\<lambda>w. False),
      initialBounds = sample_bounds\<rparr>"

text \<open>The same, but the native background setter raises on the window \<open>w1\<close>.\<close>

definition failing_env :: env where
  "failing_env = windows_env\<lparr>setBackgroundColorThrows := (\<lambda>w. windowId w = ''w1'')\<rparr>"

definition linux_env :: env where
  "linux_env = windows_env\<lparr>platform := ''linux'', hasSetBackgroundMaterial := False\<rparr>"

definition sample_tab :: TabData where
  "sample_tab =
     \<lparr>tabId = ''t1'', path = ''C:/Users'', title = ''Users'',
      history = [''C:/'', ''C:/Users''], historyIndex = 1\<rparr>"

definition no_options :: create_options where
  "no_options = \<lparr>optX = None, optY = None, optTabData = None\<rparr>"

text \<open>One window, loaded and shown, with close-to-tray on and a tray callback stored.\<close>

definition tray_state :: wm_state where
  "tray_state =
     run windows_env
       [SetTrayVisibilityCallback, SetCloseToTrayEnabled True,
        CreateWindow no_options ''w1'', LoadFinished ''w1'', ReadyToShow ''w1'']
       initial_state"

text \<open>The same with a second window, seeded with a tab.\<close>

definition two_window_state :: wm_state where
  "two_window_state =
     run windows_env
       [CreateWithTab sample_tab 500 300 ''w2'', LoadFinished ''w2'', ReadyToShow ''w2'']
       tray_state"

text \<open>Two windows created, the first one closed, a third one created.\<close>

definition sample_ops :: "registry_op list" where
  "sample_ops =
     [Create no_options ''w1'', Create no_options ''w2'', Remove ''w1'', Create no_options ''w3'']"

text \<open>The tabs a window has been sent on \<open>tab:initWithData\<close>, oldest first.\<close>

fun initTabs :: "message list \<Rightarrow> TabData list" where
  "initTabs [] = []"
| "initTabs (TabInitWithData t # ms) = t # initTabs ms"
| "initTabs (m # ms) = initTabs ms"

text \<open>
  What must hold of a window as long as its \<open>ready-to-show\<close> listener has not
  run: it is hidden, no seed timer is set, and no \<open>tab:initWithData\<close> has been
  sent; and any \<open>tab:initWithData\<close> it was sent carries the tab it was seeded with.
\<close>

definition ready_gate :: "window \<Rightarrow> bool" where
  "ready_gate w \<longleftrightarrow>
     (readyToShowPending w \<longrightarrow> \<not> visible w \<and> \<not> initTimerPending w \<and> initTabs (sent w) = [])
     \<and> (\<forall>t \<in> set (initTabs (sent w)). seedTab w = Some t)"

definition gated :: "wm_state \<Rightarrow> bool" where
  "gated s \<longleftrightarrow> (\<forall>(k, w) \<in> set (windows s). ready_gate w)"

text \<open>Two windows created under \<open>failing_env\<close>, where the setter raises on \<open>w1\<close>.\<close>

definition styled_state :: wm_state where
  "styled_state = run failing_env [CreateWindow no_options ''w1'', CreateWindow no_options ''w2''] initial_state"

text \<open>A window seeded with a tab, loaded, and one backend event; not yet ready to show.\<close>

definition seeded_events :: "event list" where
  "seeded_events = [CreateWithTab sample_tab 500 300 ''w2'', LoadFinished ''w2'', BackendEvent ''E1'']"

text \<open>
  Close-to-tray on, a tray callback stored, one window created whose load has
  not resolved yet: \<open>createWindow\<close> is suspended at its \<open>await\<close>.
\<close>

definition loading_state :: wm_state where
  "loading_state =
     run windows_env
       [SetTrayVisibilityCallback, SetCloseToTrayEnabled True, CreateWindow no_options ''w1'']
       initial_state"

text \<open>
  The window of \<open>loading_state\<close> closed while it was loading, then a second
  window created, loaded and shown.
\<close>

definition stale_entry_state :: wm_state where
  "stale_entry_state =
     run windows_env
       [CloseRequest ''w1'', CreateWindow no_options ''w2'', LoadFinished ''w2'', ReadyToShow ''w2'']
       loading_state"



section \<open>Basic facts\<close>

lemma map_of_None_iff_getAllIds:
  "map_of (windows s) wid = None \<longleftrightarrow> wid \<notin> set (getAllIds s)"
  by (simp add: getAllIds_def map_of_eq_None_iff)

lemma map_of_map_values:
  "map_of (map (\<lambda>(k, w). (k, f w)) al) k = map_option f (map_of al k)"
  by (induction al) auto

lemma fst_forEach_applyWindowStyle:
  "fst (forEach_applyWindowStyle ev st ws)
     = map (\<lambda>(k, w). (k, fst (applyWindowStyle ev w st))) ws"
  by (induction ws) (auto split: prod.splits)

lemma snd_forEach_applyWindowStyle:
  "snd (forEach_applyWindowStyle ev st ws)
     = concat (map (\<lambda>(k, w). snd (applyWindowStyle ev w st)) ws)"
  by (induction ws) (auto split: prod.splits)

lemma windows_setUIStyle:
  "windows (setUIStyle ev st s)
     = map (\<lambda>(k, w). (k, fst (applyWindowStyle ev w st))) (windows s)"
  by (simp add: setUIStyle_def Let_def emit_def fst_forEach_applyWindowStyle)

section \<open>Backend events reach every window once per registered listener\<close>

lemma forwardEvent_funpow:
  "windows ((forwardEvent e ^^ n) s)
     = map (\<lambda>(k, w). (k, w\<lparr>sent := sent w @ replicate n (XpEvent e)\<rparr>)) (windows s)"
proof (induction n)
  case 0
  show ?case by (simp add: case_prod_unfold)
next
  case (Suc n)
  have "replicate n (XpEvent e) @ [XpEvent e] = XpEvent e # replicate n (XpEvent e)"
    by (simp add: replicate_append_same)
  with Suc show ?case
    by (simp add: forwardEvent_def forEach_window_def webContents_send_def
        case_prod_unfold comp_def)
qed

lemma backendEvent_sent:
  "windows (backendEvent e s)
     = map (\<lambda>(k, w). (k, w\<lparr>sent := sent w @ replicate (eventSubscriptions s) (XpEvent e)\<rparr>))
         (windows s)"
  by (simp add: backendEvent_def forwardEvent_funpow)

lemma createWindow_subscribes:
  "eventSubscriptions (createWindow ev options wid s) = Suc (eventSubscriptions s)"
  by (simp add: createWindow_def Let_def emit_def onEvent_def)

text \<open>
  C1. The claim: each registered window receives every backend event exactly
  once, whatever the number of windows created so far. \<open>createWindow\<close>
  registers the forwarding listener again at every creation, and each copy sends
  to all windows (\<open>backendEvent_sent\<close>, \<open>createWindow_subscribes\<close>). After two
  creations a single event \<open>E1\<close> is therefore sent twice to each of the two
  windows.
\<close>

theorem two_windows_receive_each_event_twice:
  "map (\<lambda>(k, w). (k, sent w))
     (windows (run windows_env
        [CreateWindow no_options ''w1'', CreateWindow no_options ''w2'', BackendEvent ''E1'']
        initial_state))
   = [(''w1'', [XpEvent ''E1'', XpEvent ''E1'']), (''w2'', [XpEvent ''E1'', XpEvent ''E1''])]"
  by code_simp

section \<open>Tab transfer to a target that is not registered\<close>

text \<open>
  C2, as stated: a transfer whose target id is not in the registry creates
  exactly one new window seeded with the tab. With one window \<open>w1\<close> registered,
  a transfer to the unknown id \<open>gone\<close> leaves \<open>w1\<close> as the only window and
  sends the tab to nobody.
\<close>

theorem transferTab_stale_target_creates_nothing:
  "getAllIds (run windows_env [CreateWindow no_options ''w1''] initial_state) = [''w1'']
   \<and> getAllIds (transferTab ''gone'' sample_tab
        (run windows_env [CreateWindow no_options ''w1''] initial_state)) = [''w1'']
   \<and> map (\<lambda>(k, w). (k, sent w)) (windows (transferTab ''gone'' sample_tab
        (run windows_env [CreateWindow no_options ''w1''] initial_state))) = [(''w1'', [])]"
  by code_simp

text \<open>
  C2, amended: for a target id that is not in the registry, \<open>window:transferTab\<close>
  raises no error and changes nothing: no window is created and the tab is
  delivered to no window.
\<close>

theorem transferTab_miss_changes_nothing:
  "targetWindowId \<notin> set (getAllIds s) \<Longrightarrow> transferTab targetWindowId tabData s = s"
  by (simp add: transferTab_def map_of_None_iff_getAllIds [symmetric])

theorem transferTab_miss_changes_nothing_witness:
  "''gone'' \<notin> set (getAllIds (run windows_env [CreateWindow no_options ''w1''] initial_state))
   \<and> transferTab ''gone'' sample_tab
        (run windows_env [CreateWindow no_options ''w1''] initial_state)
       = run windows_env [CreateWindow no_options ''w1''] initial_state"
proof -
  have h: "''gone''
      \<notin> set (getAllIds (run windows_env [CreateWindow no_options ''w1''] initial_state))"
    by code_simp
  from transferTab_miss_changes_nothing [OF h] h show ?thesis by simp
qed

section \<open>The style of a new window\<close>

text \<open>
  C3, as stated: a window created after \<open>setStyle(glass)\<close> is given the style
  glass at creation, not classic. The window created, loaded and shown after
  \<open>window:setUIStyle\<close> with glass is, field by field, the window created after
  \<open>window:setUIStyle\<close> with classic; nothing has been sent to it and no
  background material has been set on it.
\<close>

theorem window_created_after_glass_is_not_glass:
  "currentUIStyle (run windows_env [SetUIStyle Glass] initial_state) = Glass
   \<and> getWindow ''w1'' (run windows_env
        [SetUIStyle Glass, CreateWindow no_options ''w1'', LoadFinished ''w1'', ReadyToShow ''w1'']
        initial_state)
     = getWindow ''w1'' (run windows_env
        [SetUIStyle Classic, CreateWindow no_options ''w1'', LoadFinished ''w1'', ReadyToShow ''w1'']
        initial_state)
   \<and> map (\<lambda>(k, w). (k, sent w, backgroundMaterial w)) (windows (run windows_env
        [SetUIStyle Glass, CreateWindow no_options ''w1'', LoadFinished ''w1'', ReadyToShow ''w1'']
        initial_state))
     = [(''w1'', [], None)]"
  by code_simp

text \<open>
  C3, amended: \<open>createWindow\<close> registers a window built from the platform and
  the options alone (\<open>newBrowserWindow\<close> does not take the state), sends it
  nothing, sets no background material and leaves the stored style as it is; the
  stored style reaches the window only through a later \<open>window:setUIStyle\<close>,
  which applies the requested style to it.
\<close>

theorem createWindow_ignores_stored_style:
  "getWindow wid (createWindow ev options wid s) = Some (newBrowserWindow ev options wid)
   \<and> sent (newBrowserWindow ev options wid) = []
   \<and> backgroundMaterial (newBrowserWindow ev options wid) = None
   \<and> currentUIStyle (createWindow ev options wid s) = currentUIStyle s
   \<and> getWindow wid (setUIStyle ev st (createWindow ev options wid s))
       = Some (fst (applyWindowStyle ev (newBrowserWindow ev options wid) st))"
proof -
  have w: "map_of (windows (createWindow ev options wid s)) wid
      = Some (newBrowserWindow ev options wid)"
    by (simp add: createWindow_def Let_def emit_def onEvent_def update_conv')
  have "getWindow wid (setUIStyle ev st (createWindow ev options wid s))
       = Some (fst (applyWindowStyle ev (newBrowserWindow ev options wid) st))"
    by (simp add: getWindow_def windows_setUIStyle map_of_map_values w)
  moreover have "currentUIStyle (createWindow ev options wid s) = currentUIStyle s"
    by (simp add: createWindow_def Let_def emit_def onEvent_def)
  moreover have "sent (newBrowserWindow ev options wid) = []"
    "backgroundMaterial (newBrowserWindow ev options wid) = None"
    by (simp_all add: newBrowserWindow_def Let_def)
  ultimately show ?thesis using w by (simp add: getWindow_def)
qed

theorem createWindow_ignores_stored_style_witness:
  "getWindow ''w1'' (createWindow windows_env no_options ''w1''
       (setUIStyle windows_env Glass initial_state))
     = Some (newBrowserWindow windows_env no_options ''w1'')
   \<and> currentUIStyle (createWindow windows_env no_options ''w1''
       (setUIStyle windows_env Glass initial_state)) = Glass
   \<and> backgroundMaterial (newBrowserWindow windows_env no_options ''w1'') = None"
proof -
  have "currentUIStyle (setUIStyle windows_env Glass initial_state) = Glass"
    by code_simp
  with createWindow_ignores_stored_style
    [of "''w1''" windows_env no_options "setUIStyle windows_env Glass initial_state" Glass]
  show ?thesis by simp
qed

section \<open>Lookups\<close>

text \<open>
  C8. For an id that is not a key of the registry, \<open>getWindow\<close> and
  \<open>window:getBounds\<close> return \<open>null\<close> (here \<open>None\<close>); neither has a failing
  branch.
\<close>

theorem lookup_miss_returns_none:
  "wid \<notin> set (getAllIds s) \<Longrightarrow> getWindow wid s = None \<and> getBounds wid s = None"
  by (simp add: getWindow_def getBounds_def map_of_None_iff_getAllIds [symmetric])

theorem lookup_miss_returns_none_witness:
  "''gone'' \<notin> set (getAllIds tray_state)
   \<and> getWindow ''gone'' tray_state = None
   \<and> getBounds ''gone'' tray_state = None"
proof -
  have h: "''gone'' \<notin> set (getAllIds tray_state)"
    by code_simp
  from lookup_miss_returns_none [OF h] h show ?thesis by simp
qed

section \<open>Close requests and the tray\<close>

text \<open>
  What a close request does to a registered, live window whose listeners are
  installed. The listener tests the number of registry entries
  (\<open>this.windows.size === 1\<close>): with close-to-tray enabled and one entry it
  prevents the close, hides the window and calls the tray callback, if one is
  stored; otherwise the window is destroyed, its entry deleted and the callback,
  if one is stored, called after the deletion.
\<close>

lemma closeRequest_with_listeners:
  assumes reg: "map_of (windows s) wid = Some w"
    and live: "\<not> destroyed w"
    and lis: "closeListeners w"
  shows "(if closeToTrayEnabled s \<and> length (windows s) = 1
          then emitted s (closeRequest wid s)
                 = [PreventDefault wid, Hide wid]
                   @ (if onTrayVisibilityUpdate s then [TrayVisibilityUpdate (getAllIds s)] else [])
             \<and> getAllIds (closeRequest wid s) = getAllIds s
             \<and> getWindow wid (closeRequest wid s) = Some (w\<lparr>visible := False\<rparr>)
          else emitted s (closeRequest wid s)
                 = Destroy wid
                   # (if onTrayVisibilityUpdate s
                      then [TrayVisibilityUpdate (removeAll wid (getAllIds s))] else [])
             \<and> getAllIds (closeRequest wid s) = removeAll wid (getAllIds s)
             \<and> getWindow wid (closeRequest wid s) = None)"
proof (cases "closeToTrayEnabled s \<and> length (windows s) = 1")
  case True
  from reg have "wid \<in> set (map fst (windows s))"
    by (metis map_of_eq_None_iff option.distinct(1) set_map)
  then show ?thesis using True reg live lis
    by (simp add: closeRequest_def onClose_def hideWindow_def trayVisibilityUpdate_def
        emit_def emitted_def getAllIds_def getWindow_def update_keys update_conv')
next
  case False
  then show ?thesis using reg live lis
    by (auto simp add: closeRequest_def onClose_def onClosed_def trayVisibilityUpdate_def
        emit_def emitted_def getAllIds_def getWindow_def delete_keys delete_conv')
qed

text \<open>
  C4. The claim: every close request is intercepted when close-to-tray is
  enabled and the registry holds exactly one live window, as the comment in the
  \<open>close\<close> listener says (hide instead of close for the last window).
  \<open>createWindow\<close> installs the \<open>close\<close> and \<open>closed\<close> listeners only after
  the awaited load, while the window is registered before it. With close-to-tray
  enabled, a tray callback stored and one window, still loading, a close request
  (\<open>closeAllWindows\<close> calls \<open>close\<close> on every registered window) destroys the
  window: nothing is prevented or hidden, the tray callback is not called, and
  the id stays in the registry.
\<close>

theorem close_while_loading_is_not_intercepted:
  "closeToTrayEnabled loading_state
   \<and> onTrayVisibilityUpdate loading_state
   \<and> map (\<lambda>(k, w). (k, destroyed w, closeListeners w)) (windows loading_state)
       = [(''w1'', False, False)]
   \<and> emitted loading_state (closeRequest ''w1'' loading_state) = [Destroy ''w1'']
   \<and> map (\<lambda>(k, w). (k, destroyed w, visible w)) (windows (closeRequest ''w1'' loading_state))
       = [(''w1'', True, False)]"
  by code_simp

text \<open>
  The entry left behind counts in \<open>this.windows.size\<close>: a second window, then
  the only live one, is destroyed on a close request although close-to-tray is
  enabled.
\<close>

lemma stale_entry_defeats_close_to_tray:
  "closeToTrayEnabled stale_entry_state
   \<and> map (\<lambda>(k, w). (k, destroyed w)) (windows stale_entry_state)
       = [(''w1'', True), (''w2'', False)]
   \<and> emitted stale_entry_state (closeRequest ''w2'' stale_entry_state)
       = [Destroy ''w2'', TrayVisibilityUpdate [''w1'']]
   \<and> getAllIds (closeRequest ''w2'' stale_entry_state) = [''w1'']"
  by code_simp

section \<open>The registry under creation and removal\<close>

lemma getAllIds_createWindow:
  "getAllIds (createWindow ev options wid s)
     = (if wid \<in> set (getAllIds s) then getAllIds s else getAllIds s @ [wid])"
  by (simp add: createWindow_def Let_def emit_def onEvent_def getAllIds_def update_keys)

lemma getAllIds_onClosed: "getAllIds (onClosed wid s) = removeAll wid (getAllIds s)"
  by (simp add: onClosed_def trayVisibilityUpdate_def emit_def getAllIds_def delete_keys)

lemma run_registry_Cons:
  "run_registry ev (op # ops) s = run_registry ev ops (registry_step ev s op)"
  by (simp add: run_registry_def)






lemma run_registry_live_order:
  assumes "set (getAllIds s) \<subseteq> used" and "distinct (issued ops)" and "set (issued ops) \<inter> used = {}"
  shows "getAllIds (run_registry ev ops s) = spec_live_order (getAllIds s) ops"
  using assms
proof (induction ops arbitrary: s used)
  case Nil
  show ?case by (simp add: run_registry_def)
next
  case (Cons op ops)
  show ?case
  proof (cases op)
    case (Create options wid)
    with Cons.prems have fresh: "wid \<notin> set (getAllIds s)" and d: "distinct (issued ops)"
      and n: "wid \<notin> set (issued ops)" and u: "set (issued ops) \<inter> used = {}"
      by auto
    have k: "getAllIds (createWindow ev options wid s) = getAllIds s @ [wid]"
      using fresh by (simp add: getAllIds_createWindow)
    have "getAllIds (run_registry ev ops (createWindow ev options wid s))
        = spec_live_order (getAllIds (createWindow ev options wid s)) ops"
    proof (rule Cons.IH [where used = "insert wid used"])
      show "set (getAllIds (createWindow ev options wid s)) \<subseteq> insert wid used"
        using Cons.prems(1) k by auto
      show "distinct (issued ops)" by (rule d)
      show "set (issued ops) \<inter> insert wid used = {}" using n u by auto
    qed
    with Create k show ?thesis by (simp add: run_registry_Cons)
  next
    case (Remove wid)
    have "getAllIds (run_registry ev ops (onClosed wid s))
        = spec_live_order (getAllIds (onClosed wid s)) ops"
    proof (rule Cons.IH [where used = used])
      show "set (getAllIds (onClosed wid s)) \<subseteq> used"
        using Cons.prems(1) by (auto simp add: getAllIds_onClosed)
      show "distinct (issued ops)" using Cons.prems(2) Remove by simp
      show "set (issued ops) \<inter> used = {}" using Cons.prems(3) Remove by simp
    qed
    with Remove show ?thesis by (simp add: run_registry_Cons getAllIds_onClosed)
  qed
qed

lemma getMainWindow_first_key:
  "getMainWindow s = (case getAllIds s of [] \<Rightarrow> None | wid # _ \<Rightarrow> getWindow wid s)"
  by (cases "windows s") (auto simp add: getMainWindow_def getAllIds_def getWindow_def)

lemma getWindow_key: "wid \<in> set (getAllIds s) \<Longrightarrow> getWindow wid s \<noteq> None"
  by (simp add: getWindow_def map_of_eq_None_iff getAllIds_def)




text \<open>
  C9. \<open>getMainWindow\<close> returns \<open>null\<close> when no window is registered, and
  otherwise the registered window whose id was created earliest among those not
  yet removed (ids as returned by \<open>uuidv4()\<close>, never the same twice).
\<close>

theorem getMainWindow_is_earliest_live:
  assumes "distinct (issued ops)"
  shows "(case spec_live_order [] ops of
            [] \<Rightarrow> getMainWindow (run_registry ev ops initial_state) = None
          | wid # _ \<Rightarrow>
              getMainWindow (run_registry ev ops initial_state)
                = getWindow wid (run_registry ev ops initial_state)
              \<and> getWindow wid (run_registry ev ops initial_state) \<noteq> None)"
proof -
  have ini: "getAllIds initial_state = []" by (simp add: getAllIds_def initial_state_def)
  have k: "getAllIds (run_registry ev ops initial_state) = spec_live_order [] ops"
    using run_registry_live_order [of initial_state "{}" ops ev] assms ini by simp
  show ?thesis
  proof (cases "spec_live_order [] ops")
    case Nil
    with k show ?thesis by (simp add: getMainWindow_first_key)
  next
    case (Cons wid rest)
    with k have "wid \<in> set (getAllIds (run_registry ev ops initial_state))" by simp
    from getWindow_key [OF this] Cons k show ?thesis by (simp add: getMainWindow_first_key)
  qed
qed

theorem getMainWindow_is_earliest_live_witness:
  "distinct (issued sample_ops)
   \<and> spec_live_order [] sample_ops = [''w2'', ''w3'']
   \<and> getMainWindow (run_registry windows_env sample_ops initial_state)
       = getWindow ''w2'' (run_registry windows_env sample_ops initial_state)
   \<and> getWindow ''w2'' (run_registry windows_env sample_ops initial_state) \<noteq> None
   \<and> getMainWindow (run_registry windows_env [] initial_state) = None"
proof -
  have d: "distinct (issued sample_ops)" by code_simp
  have o: "spec_live_order [] sample_ops = [''w2'', ''w3'']" by code_simp
  from getMainWindow_is_earliest_live [OF d, of windows_env] o
  have a: "getMainWindow (run_registry windows_env sample_ops initial_state)
       = getWindow ''w2'' (run_registry windows_env sample_ops initial_state)
   \<and> getWindow ''w2'' (run_registry windows_env sample_ops initial_state) \<noteq> None"
    by simp
  have "getMainWindow (run_registry windows_env [] initial_state) = None" by code_simp
  with a d o show ?thesis by simp
qed

section \<open>Changing the style\<close>

lemma currentUIStyle_setUIStyle: "currentUIStyle (setUIStyle ev st s) = st"
  by (simp add: setUIStyle_def Let_def emit_def)

lemma emitted_setUIStyle:
  "emitted s (setUIStyle ev st s)
     = concat (map (\<lambda>(k, w). snd (applyWindowStyle ev w st)) (windows s))
       @ (if currentUIStyle s \<noteq> st
          then [ConsoleLog (''UI style changed from '' @ styleName (currentUIStyle s)
                            @ '' to '' @ styleName st)]
          else [])"
  by (simp add: setUIStyle_def Let_def emit_def emitted_def snd_forEach_applyWindowStyle)

lemma applyWindowStyle_caught:
  "platform ev = ''win32'' \<Longrightarrow> applyWindowStyle_try ev w st = Inl (err, w')
     \<Longrightarrow> applyWindowStyle ev w st = (w', [ConsoleError ''Failed to apply window style:''])"
  by (simp add: applyWindowStyle_def)

lemma applyWindowStyle_color:
  "platform ev = ''win32'' \<Longrightarrow> \<not> setBackgroundColorThrows ev w
     \<Longrightarrow> backgroundColor (fst (applyWindowStyle ev w st))
         = (if st = Glass then ''#00000000'' else ''#00000001'')"
  by (simp add: applyWindowStyle_def applyWindowStyle_try_def setBackgroundColor_def
      setBackgroundMaterial_def split: sum.splits prod.splits)

lemma applyWindowStyle_elsewhere:
  "platform ev \<noteq> ''win32'' \<Longrightarrow> applyWindowStyle ev w st = (w, [])"
  by (simp add: applyWindowStyle_def)

lemma getAllIds_setUIStyle: "getAllIds (setUIStyle ev st s) = getAllIds s"
  by (simp add: getAllIds_def windows_setUIStyle case_prod_unfold comp_def)

text \<open>
  C7. \<open>window:setUIStyle\<close> leaves the requested style stored and passes
  every registered window, in registry order, through \<open>applyWindowStyle\<close>;
  the registry keeps its keys. The handler has no failing outcome: outside
  Windows \<open>applyWindowStyle\<close> does nothing, and on Windows an exception of a
  native setter is caught in \<open>applyWindowStyle\<close> and logged, so the windows
  after it are still styled; where the setter does not raise, the window gets the
  background colour of the style. The assignment to the stored style precedes the
  loop, which neither reads nor writes it.
\<close>

theorem setUIStyle_stores_and_applies:
  "currentUIStyle (setUIStyle ev st s) = st
   \<and> getAllIds (setUIStyle ev st s) = getAllIds s
   \<and> windows (setUIStyle ev st s)
       = map (\<lambda>(k, w). (k, fst (applyWindowStyle ev w st))) (windows s)
   \<and> emitted s (setUIStyle ev st s)
       = concat (map (\<lambda>(k, w). snd (applyWindowStyle ev w st)) (windows s))
         @ (if currentUIStyle s \<noteq> st
            then [ConsoleLog (''UI style changed from '' @ styleName (currentUIStyle s)
                              @ '' to '' @ styleName st)]
            else [])
   \<and> (\<forall>w. platform ev \<noteq> ''win32'' \<longrightarrow> applyWindowStyle ev w st = (w, []))
   \<and> (\<forall>w err w'. platform ev = ''win32'' \<and> applyWindowStyle_try ev w st = Inl (err, w')
         \<longrightarrow> applyWindowStyle ev w st = (w', [ConsoleError ''Failed to apply window style:'']))
   \<and> (\<forall>w. platform ev = ''win32'' \<and> \<not> setBackgroundColorThrows ev w
         \<longrightarrow> backgroundColor (fst (applyWindowStyle ev w st))
             = (if st = Glass then ''#00000000'' else ''#00000001''))"
  using currentUIStyle_setUIStyle [of ev st s] getAllIds_setUIStyle [of ev st s]
    windows_setUIStyle [of ev st s] emitted_setUIStyle [of s ev st]
    applyWindowStyle_elsewhere [of ev _ st] applyWindowStyle_caught [of ev _ st]
    applyWindowStyle_color [of ev _ st]
  by blast

theorem setUIStyle_stores_and_applies_witness:
  "currentUIStyle (setUIStyle failing_env Glass styled_state) = Glass
   \<and> getAllIds (setUIStyle failing_env Glass styled_state) = [''w1'', ''w2'']
   \<and> map (\<lambda>(k, w). (k, backgroundMaterial w)) (windows (setUIStyle failing_env Glass styled_state))
       = [(''w1'', None), (''w2'', Some ''acrylic'')]
   \<and> emitted styled_state (setUIStyle failing_env Glass styled_state)
       = [ConsoleError ''Failed to apply window style:'',
          ConsoleLog ''Applied acrylic background material for glass effect'',
          ConsoleLog ''UI style changed from classic to glass'']
   \<and> currentUIStyle (setUIStyle linux_env Glass styled_state) = Glass
   \<and> windows (setUIStyle linux_env Glass styled_state) = windows styled_state"
proof -
  have w: "windows styled_state
      = [(''w1'', newBrowserWindow failing_env no_options ''w1''),
         (''w2'', newBrowserWindow failing_env no_options ''w2'')]"
    by code_simp
  have a1: "applyWindowStyle failing_env (newBrowserWindow failing_env no_options ''w1'') Glass
      = (newBrowserWindow failing_env no_options ''w1'',
         [ConsoleError ''Failed to apply window style:''])"
    by code_simp
  have a2: "applyWindowStyle failing_env (newBrowserWindow failing_env no_options ''w2'') Glass
      = ((newBrowserWindow failing_env no_options ''w2'')
           \<lparr>backgroundColor := ''#00000000'', backgroundMaterial := Some ''acrylic''\<rparr>,
         [ConsoleLog ''Applied acrylic background material for glass effect''])"
    by code_simp
  have m: "backgroundMaterial (newBrowserWindow failing_env no_options ''w1'') = None"
    by code_simp
  have c: "currentUIStyle styled_state = Classic" "getAllIds styled_state = [''w1'', ''w2'']"
    by code_simp+
  have n: "styleName Classic = ''classic''" "styleName Glass = ''glass''"
    by code_simp+
  from setUIStyle_stores_and_applies [of failing_env Glass styled_state] w a1 a2 m c n
  have win: "currentUIStyle (setUIStyle failing_env Glass styled_state) = Glass
   \<and> getAllIds (setUIStyle failing_env Glass styled_state) = [''w1'', ''w2'']
   \<and> map (\<lambda>(k, w). (k, backgroundMaterial w)) (windows (setUIStyle failing_env Glass styled_state))
       = [(''w1'', None), (''w2'', Some ''acrylic'')]
   \<and> emitted styled_state (setUIStyle failing_env Glass styled_state)
       = [ConsoleError ''Failed to apply window style:'',
          ConsoleLog ''Applied acrylic background material for glass effect'',
          ConsoleLog ''UI style changed from classic to glass'']"
    by simp
  have p: "platform linux_env \<noteq> ''win32''" by code_simp
  from setUIStyle_stores_and_applies [of linux_env Glass styled_state] p
  have lin: "currentUIStyle (setUIStyle linux_env Glass styled_state) = Glass
   \<and> windows (setUIStyle linux_env Glass styled_state) = windows styled_state"
    by simp
  from win lin show ?thesis by simp
qed

text \<open>
  C10. Two \<open>window:setUIStyle\<close> requests with the same style leave the same
  stored style as one. A request with the style that is already stored still
  passes every registered window through \<open>applyWindowStyle\<close> and produces its
  console output (only the change log line is left out); what is done to the
  windows does not depend on the style stored before.
\<close>

theorem setUIStyle_idempotent_and_unconditional:
  "currentUIStyle (setUIStyle ev st (setUIStyle ev st s)) = currentUIStyle (setUIStyle ev st s)
   \<and> (currentUIStyle s = st \<longrightarrow>
        currentUIStyle (setUIStyle ev st s) = currentUIStyle s
        \<and> windows (setUIStyle ev st s)
            = map (\<lambda>(k, w). (k, fst (applyWindowStyle ev w st))) (windows s)
        \<and> emitted s (setUIStyle ev st s)
            = concat (map (\<lambda>(k, w). snd (applyWindowStyle ev w st)) (windows s)))
   \<and> (\<forall>old. windows (setUIStyle ev st (s\<lparr>currentUIStyle := old\<rparr>)) = windows (setUIStyle ev st s))"
proof -
  have "windows (setUIStyle ev st (s\<lparr>currentUIStyle := old\<rparr>)) = windows (setUIStyle ev st s)" for old
    by (simp add: windows_setUIStyle)
  then show ?thesis
    by (simp add: currentUIStyle_setUIStyle windows_setUIStyle emitted_setUIStyle)
qed

theorem setUIStyle_idempotent_and_unconditional_witness:
  "currentUIStyle (setUIStyle windows_env Glass two_window_state) = Glass
   \<and> currentUIStyle (setUIStyle windows_env Glass (setUIStyle windows_env Glass two_window_state)) = Glass
   \<and> map (\<lambda>(k, w). (k, backgroundMaterial w))
        (windows (setUIStyle windows_env Glass (two_window_state\<lparr>currentUIStyle := Glass\<rparr>)))
       = [(''w1'', Some ''acrylic''), (''w2'', Some ''acrylic'')]
   \<and> emitted (two_window_state\<lparr>currentUIStyle := Glass\<rparr>)
        (setUIStyle windows_env Glass (two_window_state\<lparr>currentUIStyle := Glass\<rparr>))
       = [ConsoleLog ''Applied acrylic background material for glass effect'',
          ConsoleLog ''Applied acrylic background material for glass effect'']"
proof -
  have c: "currentUIStyle (two_window_state\<lparr>currentUIStyle := Glass\<rparr>) = Glass" by simp
  have g: "currentUIStyle (setUIStyle windows_env Glass two_window_state) = Glass" by code_simp
  have w: "map (\<lambda>(k, w). (k, backgroundMaterial w))
     (map (\<lambda>(k, w). (k, fst (applyWindowStyle windows_env w Glass)))
        (windows (two_window_state\<lparr>currentUIStyle := Glass\<rparr>)))
      = [(''w1'', Some ''acrylic''), (''w2'', Some ''acrylic'')]"
    by code_simp
  have e: "concat (map (\<lambda>(k, w). snd (applyWindowStyle windows_env w Glass))
        (windows (two_window_state\<lparr>currentUIStyle := Glass\<rparr>)))
      = [ConsoleLog ''Applied acrylic background material for glass effect'',
          ConsoleLog ''Applied acrylic background material for glass effect'']"
    by code_simp
  from setUIStyle_idempotent_and_unconditional
    [of windows_env Glass two_window_state] g
  have i: "currentUIStyle (setUIStyle windows_env Glass (setUIStyle windows_env Glass two_window_state)) = Glass"
    by simp
  from setUIStyle_idempotent_and_unconditional
    [of windows_env Glass "two_window_state\<lparr>currentUIStyle := Glass\<rparr>"] c w e
  have "map (\<lambda>(k, w). (k, backgroundMaterial w))
        (windows (setUIStyle windows_env Glass (two_window_state\<lparr>currentUIStyle := Glass\<rparr>)))
       = [(''w1'', Some ''acrylic''), (''w2'', Some ''acrylic'')]
   \<and> emitted (two_window_state\<lparr>currentUIStyle := Glass\<rparr>)
        (setUIStyle windows_env Glass (two_window_state\<lparr>currentUIStyle := Glass\<rparr>))
       = [ConsoleLog ''Applied acrylic background material for glass effect'',
          ConsoleLog ''Applied acrylic background material for glass effect'']"
    by simp
  with g i show ?thesis by simp
qed

section \<open>Nothing is shown or seeded before the window is ready\<close>

lemma set_update_subset: "set (AList.update k v al) \<subseteq> insert (k, v) (set al)"
  by (induction al) auto

lemma set_delete_subset: "set (AList.delete k al) \<subseteq> set al"
  by (auto simp add: AList.delete_eq)

lemma windows_emit [simp]: "windows (emit es s) = windows s"
  by (simp add: emit_def)

lemma windows_trayVisibilityUpdate [simp]: "windows (trayVisibilityUpdate s) = windows s"
  by (simp add: trayVisibilityUpdate_def)

lemma gated_lookup: "gated s \<Longrightarrow> map_of (windows s) wid = Some w \<Longrightarrow> ready_gate w"
  by (auto simp add: gated_def dest: map_of_SomeD)

lemma gated_update:
  "gated s \<Longrightarrow> ready_gate v \<Longrightarrow> windows s' = AList.update k v (windows s) \<Longrightarrow> gated s'"
  using set_update_subset [of k v "windows s"] by (auto simp add: gated_def)

lemma gated_delete:
  "gated s \<Longrightarrow> windows s' = AList.delete k (windows s) \<Longrightarrow> gated s'"
  using set_delete_subset [of k "windows s"] by (auto simp add: gated_def)

lemma gated_map:
  "gated s \<Longrightarrow> (\<And>w. ready_gate w \<Longrightarrow> ready_gate (f w))
     \<Longrightarrow> windows s' = map (\<lambda>(k, w). (k, f w)) (windows s) \<Longrightarrow> gated s'"
  by (auto simp add: gated_def)

lemma initTabs_append [simp]: "initTabs (xs @ ys) = initTabs xs @ initTabs ys"
  by (induction xs rule: initTabs.induct) simp_all

lemma initTabs_events [simp]: "initTabs (replicate n (XpEvent e)) = []"
  by (induction n) simp_all

lemma set_initTabs: "t \<in> set (initTabs ms) \<longleftrightarrow> TabInitWithData t \<in> set ms"
  by (induction ms rule: initTabs.induct) auto

lemma ready_gate_new: "ready_gate (newBrowserWindow ev options wid)"
  by (simp add: ready_gate_def newBrowserWindow_def Let_def)

lemma ready_gate_send:
  "ready_gate w \<Longrightarrow> initTabs [m] = [] \<Longrightarrow> ready_gate (webContents_send m w)"
  by (simp add: ready_gate_def webContents_send_def)

lemma ready_gate_events:
  "ready_gate w \<Longrightarrow> ready_gate (w\<lparr>sent := sent w @ replicate n (XpEvent e)\<rparr>)"
  by (simp add: ready_gate_def)

lemma applyWindowStyle_frame:
  "readyToShowPending (fst (applyWindowStyle ev w st)) = readyToShowPending w
   \<and> visible (fst (applyWindowStyle ev w st)) = visible w
   \<and> initTimerPending (fst (applyWindowStyle ev w st)) = initTimerPending w
   \<and> sent (fst (applyWindowStyle ev w st)) = sent w
   \<and> seedTab (fst (applyWindowStyle ev w st)) = seedTab w"
  by (simp add: applyWindowStyle_def applyWindowStyle_try_def
      setBackgroundColor_def setBackgroundMaterial_def)

lemma ready_gate_style: "ready_gate w \<Longrightarrow> ready_gate (fst (applyWindowStyle ev w st))"
  by (simp add: ready_gate_def applyWindowStyle_frame)

lemma gated_createWindow:
  assumes "gated s"
  shows "gated (createWindow ev options wid s)"
proof (rule gated_update [OF assms ready_gate_new])
  show "windows (createWindow ev options wid s)
      = AList.update wid (newBrowserWindow ev options wid) (windows s)"
    by (simp add: createWindow_def Let_def onEvent_def)
qed

lemma gated_createWindow_loaded: "gated s \<Longrightarrow> gated (createWindow_loaded ev wid s)"
proof (cases "map_of (windows s) wid")
  case None
  assume "gated s"
  with None show ?thesis by (simp add: createWindow_loaded_def)
next
  case (Some w)
  assume g: "gated s"
  from gated_lookup [OF g Some] have "ready_gate (w\<lparr>closeListeners := True\<rparr>)"
    by (simp add: ready_gate_def)
  from gated_update [OF g this, of _ wid] g Some show ?thesis
    by (simp add: createWindow_loaded_def Let_def)
qed

lemma gated_readyToShow: "gated s \<Longrightarrow> gated (readyToShow wid s)"
proof (cases "map_of (windows s) wid")
  case None
  assume "gated s"
  with None show ?thesis by (simp add: readyToShow_def)
next
  case (Some w)
  assume g: "gated s"
  show ?thesis
  proof (cases "destroyed w \<or> \<not> readyToShowPending w")
    case True
    with g Some show ?thesis by (simp add: readyToShow_def)
  next
    case False
    let ?w1 = "w\<lparr>readyToShowPending := False, visible := True\<rparr>"
    let ?w2 = "if seedTab w \<noteq> None then ?w1\<lparr>initTimerPending := True\<rparr> else ?w1"
    from gated_lookup [OF g Some] False have g1: "ready_gate ?w1" and g2: "ready_gate ?w2"
      by (simp_all add: ready_gate_def)
    have "gated (s\<lparr>windows := AList.update wid ?w1 (windows s)\<rparr>)"
      by (rule gated_update [OF g g1]) simp
    from gated_update [OF this g2, of _ wid] Some False show ?thesis
      by (simp add: readyToShow_def Let_def)
  qed
qed

lemma gated_initTimerFired: "gated s \<Longrightarrow> gated (initTimerFired wid s)"
proof (cases "map_of (windows s) wid")
  case None
  assume "gated s"
  with None show ?thesis by (simp add: initTimerFired_def)
next
  case (Some w)
  assume g: "gated s"
  show ?thesis
  proof (cases "seedTab w")
    case None
    with g Some show ?thesis by (simp add: initTimerFired_def)
  next
    case (Some t)
    show ?thesis
    proof (cases "initTimerPending w")
      case False
      with g Some \<open>map_of (windows s) wid = Some w\<close> show ?thesis
        by (simp add: initTimerFired_def)
    next
      case True
      from gated_lookup [OF g \<open>map_of (windows s) wid = Some w\<close>] True Some
      have "ready_gate (webContents_send (TabInitWithData t) (w\<lparr>initTimerPending := False\<rparr>))"
        by (auto simp add: ready_gate_def webContents_send_def)
      from gated_update [OF g this, of _ wid] True Some \<open>map_of (windows s) wid = Some w\<close>
      show ?thesis by (simp add: initTimerFired_def)
    qed
  qed
qed

lemma gated_hideWindow: "gated s \<Longrightarrow> gated (hideWindow wid s)"
proof (cases "map_of (windows s) wid")
  case None
  assume "gated s"
  with None show ?thesis by (simp add: hideWindow_def)
next
  case (Some w)
  assume g: "gated s"
  from gated_lookup [OF g Some] have "ready_gate (w\<lparr>visible := False\<rparr>)"
    by (simp add: ready_gate_def)
  from gated_update [OF g this, of _ wid] Some show ?thesis
    by (simp add: hideWindow_def)
qed

lemma gated_onClose: "gated s \<Longrightarrow> gated (snd (onClose wid s))"
proof -
  assume g: "gated s"
  have "gated (emit [PreventDefault wid] s)"
    using g by (simp add: gated_def)
  from gated_hideWindow [OF this, of wid]
  have "gated (trayVisibilityUpdate (hideWindow wid (emit [PreventDefault wid] s)))"
    by (simp add: gated_def)
  with g show ?thesis by (simp add: onClose_def)
qed

lemma gated_onClosed:
  assumes "gated s"
  shows "gated (onClosed wid s)"
proof (rule gated_delete [OF assms])
  show "windows (onClosed wid s) = AList.delete wid (windows s)"
    by (simp add: onClosed_def)
qed

lemma gated_closeRequest: "gated s \<Longrightarrow> gated (closeRequest wid s)"
proof (cases "map_of (windows s) wid")
  case None
  assume "gated s"
  with None show ?thesis by (simp add: closeRequest_def)
next
  case (Some w)
  assume g: "gated s"
  show ?thesis
  proof (cases "destroyed w")
    case True
    with g Some show ?thesis by (simp add: closeRequest_def)
  next
    case False
    show ?thesis
    proof (cases "closeListeners w")
      case True
      have c: "gated (snd (onClose wid s))" by (rule gated_onClose [OF g])
      show ?thesis
      proof (cases "onClose wid s")
        case (Pair prevented s1)
        with c have g1: "gated s1" by simp
        show ?thesis
        proof (cases prevented)
          case True
          with g1 Pair Some \<open>\<not> destroyed w\<close> \<open>closeListeners w\<close> show ?thesis
            by (simp add: closeRequest_def)
        next
          case False
          have "gated (emit [Destroy wid] s1)"
            using g1 by (simp add: gated_def)
          from gated_onClosed [OF this, of wid] False Pair Some
            \<open>\<not> destroyed w\<close> \<open>closeListeners w\<close>
          show ?thesis by (simp add: closeRequest_def)
        qed
      qed
    next
      case False
      from gated_lookup [OF g Some] have "ready_gate (w\<lparr>destroyed := True, visible := False\<rparr>)"
        by (simp add: ready_gate_def)
      from gated_update [OF g this, of _ wid] False Some \<open>\<not> destroyed w\<close> show ?thesis
        by (simp add: closeRequest_def)
    qed
  qed
qed

lemma gated_backendEvent:
  assumes "gated s"
  shows "gated (backendEvent e s)"
proof (rule gated_map [OF assms])
  show "windows (backendEvent e s)
      = map (\<lambda>(k, w). (k, w\<lparr>sent := sent w @ replicate (eventSubscriptions s) (XpEvent e)\<rparr>))
          (windows s)"
    by (rule backendEvent_sent)
  show "ready_gate (w\<lparr>sent := sent w @ replicate (eventSubscriptions s) (XpEvent e)\<rparr>)"
    if "ready_gate w" for w
    using that by (rule ready_gate_events)
qed

lemma gated_setUIStyle:
  assumes "gated s"
  shows "gated (setUIStyle ev st s)"
proof (rule gated_map [OF assms])
  show "windows (setUIStyle ev st s)
      = map (\<lambda>(k, w). (k, fst (applyWindowStyle ev w st))) (windows s)"
    by (rule windows_setUIStyle)
  show "ready_gate (fst (applyWindowStyle ev w st))" if "ready_gate w" for w
    using that by (rule ready_gate_style)
qed

lemma gated_transferTab: "gated s \<Longrightarrow> gated (transferTab wid tabData s)"
proof (cases "map_of (windows s) wid")
  case None
  assume "gated s"
  with None show ?thesis by (simp add: transferTab_def)
next
  case (Some w)
  assume g: "gated s"
  from gated_lookup [OF g Some] have "ready_gate (webContents_send (TabReceive tabData) w)"
    by (simp add: ready_gate_send)
  from gated_update [OF g this, of _ wid] Some show ?thesis
    by (simp add: transferTab_def)
qed

lemma gated_showDropIndicator: "gated s \<Longrightarrow> gated (showDropIndicator wid b s)"
proof (cases "map_of (windows s) wid")
  case None
  assume "gated s"
  with None show ?thesis by (simp add: showDropIndicator_def)
next
  case (Some w)
  assume g: "gated s"
  from gated_lookup [OF g Some] have "ready_gate (webContents_send (TabDropIndicator b) w)"
    by (simp add: ready_gate_send)
  from gated_update [OF g this, of _ wid] Some show ?thesis
    by (simp add: showDropIndicator_def)
qed

lemma gated_step: "gated s \<Longrightarrow> gated (step ev s e)"
proof (cases e)
  case (SetCloseToTrayEnabled b)
  assume "gated s"
  with SetCloseToTrayEnabled show ?thesis
    by (simp add: setCloseToTrayEnabled_def gated_def)
next
  case SetTrayVisibilityCallback
  assume "gated s"
  with SetTrayVisibilityCallback show ?thesis
    by (simp add: setTrayVisibilityCallback_def gated_def)
qed (simp_all add: gated_createWindow createWithTab_def gated_createWindow_loaded
    gated_readyToShow gated_initTimerFired gated_closeRequest gated_backendEvent
    gated_setUIStyle gated_transferTab gated_showDropIndicator)

lemma gated_run: "gated s \<Longrightarrow> gated (run ev evs s)"
  unfolding run_def by (induction evs arbitrary: s) (simp_all add: gated_step)

lemma gated_initial: "gated initial_state"
  by (simp add: gated_def initial_state_def)

text \<open>
  C6. \<open>createWindow\<close> registers a hidden window to which nothing has been sent
  and whose \<open>ready-to-show\<close> listener is pending. In every state the event loop
  can reach from the start, a registered window whose \<open>ready-to-show\<close> listener
  has not run yet is not visible and has not been sent \<open>tab:initWithData\<close>; and a
  \<open>tab:initWithData\<close> that a window has been sent carries the tab the window was
  seeded with.
\<close>

theorem shown_and_seeded_only_after_ready:
  "getWindow wid (createWindow ev options wid s) = Some (newBrowserWindow ev options wid)
   \<and> readyToShowPending (newBrowserWindow ev options wid)
   \<and> \<not> visible (newBrowserWindow ev options wid)
   \<and> sent (newBrowserWindow ev options wid) = []
   \<and> (getWindow wid' (run ev evs initial_state) = Some w \<and> readyToShowPending w
        \<longrightarrow> \<not> visible w \<and> TabInitWithData t \<notin> set (sent w))
   \<and> (getWindow wid' (run ev evs initial_state) = Some w \<and> TabInitWithData t \<in> set (sent w)
        \<longrightarrow> seedTab w = Some t)"
proof -
  have new: "getWindow wid (createWindow ev options wid s) = Some (newBrowserWindow ev options wid)"
    by (simp add: getWindow_def createWindow_def Let_def emit_def onEvent_def update_conv')
  have fresh: "readyToShowPending (newBrowserWindow ev options wid)"
    "\<not> visible (newBrowserWindow ev options wid)"
    "sent (newBrowserWindow ev options wid) = []"
    by (simp_all add: newBrowserWindow_def Let_def)
  have g: "gated (run ev evs initial_state)"
    by (rule gated_run [OF gated_initial])
  have inv: "ready_gate w" if "getWindow wid' (run ev evs initial_state) = Some w"
    using gated_lookup [OF g] that by (simp add: getWindow_def)
  have a: "\<not> visible w \<and> TabInitWithData t \<notin> set (sent w)"
    if "getWindow wid' (run ev evs initial_state) = Some w" "readyToShowPending w"
    using inv [OF that(1)] that(2) set_initTabs [of t "sent w"] by (auto simp add: ready_gate_def)
  have b: "seedTab w = Some t"
    if "getWindow wid' (run ev evs initial_state) = Some w" "TabInitWithData t \<in> set (sent w)"
    using inv [OF that(1)] that(2) set_initTabs [of t "sent w"] by (auto simp add: ready_gate_def)
  from new fresh a b show ?thesis by blast
qed

theorem shown_and_seeded_only_after_ready_witness:
  "map (\<lambda>(k, w). (k, readyToShowPending w, visible w, sent w))
       (windows (run windows_env seeded_events initial_state))
     = [(''w2'', True, False, [XpEvent ''E1''])]
   \<and> TabInitWithData sample_tab \<notin> set (sent (the (getWindow ''w2'' (run windows_env seeded_events initial_state))))
   \<and> map (\<lambda>(k, w). (k, readyToShowPending w, visible w, sent w))
       (windows (run windows_env (seeded_events @ [InitTimerFired ''w2'', ReadyToShow ''w2'']) initial_state))
     = [(''w2'', False, True, [XpEvent ''E1''])]
   \<and> map (\<lambda>(k, w). (k, readyToShowPending w, visible w, sent w))
       (windows (run windows_env (seeded_events @ [ReadyToShow ''w2'', InitTimerFired ''w2'']) initial_state))
     = [(''w2'', False, True, [XpEvent ''E1'', TabInitWithData sample_tab])]
   \<and> seedTab (the (getWindow ''w2''
        (run windows_env (seeded_events @ [ReadyToShow ''w2'', InitTimerFired ''w2'']) initial_state)))
     = Some sample_tab"
proof -
  let ?before = "run windows_env seeded_events initial_state"
  let ?after = "run windows_env (seeded_events @ [ReadyToShow ''w2'', InitTimerFired ''w2'']) initial_state"
  have e1: "map (\<lambda>(k, w). (k, readyToShowPending w, visible w, sent w)) (windows ?before)
     = [(''w2'', True, False, [XpEvent ''E1''])]"
    by code_simp
  have e2: "map (\<lambda>(k, w). (k, readyToShowPending w, visible w, sent w))
       (windows (run windows_env (seeded_events @ [InitTimerFired ''w2'', ReadyToShow ''w2'']) initial_state))
     = [(''w2'', False, True, [XpEvent ''E1''])]"
    by code_simp
  have e3: "map (\<lambda>(k, w). (k, readyToShowPending w, visible w, sent w)) (windows ?after)
     = [(''w2'', False, True, [XpEvent ''E1'', TabInitWithData sample_tab])]"
    by code_simp
  have b1: "getWindow ''w2'' ?before = Some (the (getWindow ''w2'' ?before))"
    "readyToShowPending (the (getWindow ''w2'' ?before))"
    by code_simp+
  have a1: "getWindow ''w2'' ?after = Some (the (getWindow ''w2'' ?after))"
    "TabInitWithData sample_tab \<in> set (sent (the (getWindow ''w2'' ?after)))"
    by code_simp+
  from shown_and_seeded_only_after_ready
    [of "''w2''" windows_env no_options initial_state "''w2''" seeded_events
        "the (getWindow ''w2'' ?before)" sample_tab] b1
  have n: "TabInitWithData sample_tab \<notin> set (sent (the (getWindow ''w2'' ?before)))"
    by blast
  from shown_and_seeded_only_after_ready
    [of "''w2''" windows_env no_options initial_state "''w2''"
        "seeded_events @ [ReadyToShow ''w2'', InitTimerFired ''w2'']"
        "the (getWindow ''w2'' ?after)" sample_tab] a1
  have s: "seedTab (the (getWindow ''w2'' ?after)) = Some sample_tab"
    by blast
  from e1 e2 e3 n s show ?thesis by simp
qed

end
